theory Spec2Isabelle
  imports Main
begin

section \<open>Python values the program works with\<close>

text \<open>
  Python 2 byte strings are \<open>string\<close> (a list of 8-bit characters).  An exception is a
  value: the class the source raises, with its message (or exit status, or return code).
  A function of the source that can raise returns \<open>exn + 'a\<close>, with \<open>Inl\<close> the exception.
\<close>

datatype exn =
    ValueError string
  | RuntimeError string
  | IOError string
  | OSError string
  | AttributeError string
  | YAMLError string
  | CalledProcessError int
  | SystemExit int
  | StopIteration
  | UnboundLocalError string
  | ExecutableNotFound string

fun is_RuntimeError :: "exn + 'a \<Rightarrow> bool" where
  "is_RuntimeError (Inl (RuntimeError m)) = True"
| "is_RuntimeError r = False"

fun is_ValueError :: "exn + 'a \<Rightarrow> bool" where
  "is_ValueError (Inl (ValueError m)) = True"
| "is_ValueError r = False"

fun raises :: "exn + 'a \<Rightarrow> bool" where
  "raises (Inl e) = True"
| "raises (Inr v) = False"

subsection \<open>String methods\<close>

text \<open>\<open>s.startswith(c)\<close> for a one-character \<open>c\<close>.\<close>

fun startswith :: "string \<Rightarrow> char \<Rightarrow> bool" where
  "startswith [] c = False"
| "startswith (x # xs) c = (x = c)"

text \<open>\<open>s.endswith(c)\<close> for a one-character \<open>c\<close>.\<close>

definition endswith :: "string \<Rightarrow> char \<Rightarrow> bool" where
  "endswith s c = startswith (rev s) c"

text \<open>\<open>s[:s.find(c)]\<close> and \<open>s[s.find(c)+1:]\<close>, used where \<open>c in s\<close> has been tested.\<close>

definition before_first :: "char \<Rightarrow> string \<Rightarrow> string" where
  "before_first c s = takeWhile (\<lambda>x. x \<noteq> c) s"

definition after_first :: "char \<Rightarrow> string \<Rightarrow> string" where
  "after_first c s = tl (dropWhile (\<lambda>x. x \<noteq> c) s)"

text \<open>\<open>s[:s.rfind(c)+1]\<close> and \<open>s[s.rfind(c)+1:]\<close>; \<open>rfind\<close> is -1 when \<open>c\<close> does not
  occur, so the first is then empty and the second the whole string.\<close>

definition upto_last :: "char \<Rightarrow> string \<Rightarrow> string" where
  "upto_last c s = rev (dropWhile (\<lambda>x. x \<noteq> c) (rev s))"

definition after_last :: "char \<Rightarrow> string \<Rightarrow> string" where
  "after_last c s = rev (takeWhile (\<lambda>x. x \<noteq> c) (rev s))"

text \<open>\<open>s.rstrip(c)\<close> for a one-character \<open>c\<close>.\<close>

definition rstrip :: "char \<Rightarrow> string \<Rightarrow> string" where
  "rstrip c s = rev (dropWhile (\<lambda>x. x = c) (rev s))"

text \<open>\<open>s.split(c)\<close> with an explicit separator: every occurrence splits, and the empty
  string gives one empty field.\<close>

fun split :: "char \<Rightarrow> string \<Rightarrow> string list" where
  "split c [] = [[]]"
| "split c (x # xs) =
     (if x = c then [] # split c xs
      else (case split c xs of [] \<Rightarrow> [[x]] | w # ws \<Rightarrow> (x # w) # ws))"

text \<open>\<open>c.join(xs)\<close>.\<close>

fun join :: "char \<Rightarrow> string list \<Rightarrow> string" where
  "join c [] = []"
| "join c [x] = x"
| "join c (x # y # ys) = x @ c # join c (y # ys)"

text \<open>\<open>s.lower()\<close> on ASCII.\<close>

definition lower_char :: "char \<Rightarrow> char" where
  "lower_char c =
     (case map_of (zip ''ABCDEFGHIJKLMNOPQRSTUVWXYZ'' ''abcdefghijklmnopqrstuvwxyz'') c of
        None \<Rightarrow> c | Some l \<Rightarrow> l)"

definition lower :: "string \<Rightarrow> string" where
  "lower s = map lower_char s"

text \<open>\<open>"%d" % n\<close>.\<close>

fun str_nat :: "nat \<Rightarrow> string" where
  "str_nat n =
     (if n < 10 then [''0123456789'' ! n]
      else str_nat (n div 10) @ [''0123456789'' ! (n mod 10)])"

declare str_nat.simps [simp del]

definition str_int :: "int \<Rightarrow> string" where
  "str_int i = (if i < 0 then CHR ''-'' # str_nat (nat (- i)) else str_nat (nat i))"

text \<open>\<open>map(f, xs)\<close> where \<open>f\<close> may raise: the first exception ends the loop.\<close>

fun map_exn :: "('a \<Rightarrow> exn + 'b) \<Rightarrow> 'a list \<Rightarrow> exn + 'b list" where
  "map_exn f [] = Inr []"
| "map_exn f (x # xs) =
     (case f x of
        Inl e \<Rightarrow> Inl e
      | Inr y \<Rightarrow> (case map_exn f xs of Inl e \<Rightarrow> Inl e | Inr ys \<Rightarrow> Inr (y # ys)))"

section \<open>The library functions the program calls\<close>

subsection \<open>\<open>os.path\<close> (posixpath)\<close>

definition os_path_isabs :: "string \<Rightarrow> bool" where
  "os_path_isabs s = startswith s CHR ''/''"

definition os_path_basename :: "string \<Rightarrow> string" where
  "os_path_basename p = after_last CHR ''/'' p"

text \<open>\<open>dirname\<close>: the head up to the last slash, with its trailing slashes stripped
  unless it consists of slashes only.\<close>

definition os_path_dirname :: "string \<Rightarrow> string" where
  "os_path_dirname p =
     (let head = upto_last CHR ''/'' p in
      if head \<noteq> [] \<and> head \<noteq> replicate (length head) CHR ''/''
      then rstrip CHR ''/'' head else head)"

text \<open>\<open>os.path.join(a, b)\<close> with two arguments.\<close>

definition os_path_join :: "string \<Rightarrow> string \<Rightarrow> string" where
  "os_path_join a b =
     (if startswith b CHR ''/'' then b
      else if a = [] \<or> endswith a CHR ''/'' then a @ b
      else a @ CHR ''/'' # b)"

text \<open>The loop of \<open>normpath\<close> over the components, \<open>new_comps\<close> kept in order.\<close>

fun norm_comps :: "bool \<Rightarrow> string list \<Rightarrow> string list \<Rightarrow> string list" where
  "norm_comps slashes new_comps [] = new_comps"
| "norm_comps slashes new_comps (cmp # comps) =
     (if cmp = [] \<or> cmp = ''.'' then norm_comps slashes new_comps comps
      else if cmp \<noteq> ''..'' \<or> (\<not> slashes \<and> new_comps = [])
              \<or> (new_comps \<noteq> [] \<and> last new_comps = ''..'')
        then norm_comps slashes (new_comps @ [cmp]) comps
      else if new_comps \<noteq> [] then norm_comps slashes (butlast new_comps) comps
      else norm_comps slashes new_comps comps)"

definition os_path_normpath :: "string \<Rightarrow> string" where
  "os_path_normpath p =
     (if p = [] then ''.''
      else
        let initial_slashes =
              (if startswith p CHR ''/'' then
                 (if take 2 p = ''//'' \<and> take 3 p \<noteq> ''///'' then 2 else 1)
               else (0::nat));
            comps = norm_comps (initial_slashes \<noteq> 0) [] (split CHR ''/'' p);
            q = replicate initial_slashes CHR ''/'' @ join CHR ''/'' comps
        in if q = [] then ''.'' else q)"

text \<open>\<open>os.path.abspath\<close>; the current directory \<open>os.getcwd()\<close> is the argument \<open>cwd\<close>.\<close>

definition os_path_abspath :: "string \<Rightarrow> string \<Rightarrow> string" where
  "os_path_abspath cwd p =
     os_path_normpath (if os_path_isabs p then p else os_path_join cwd p)"

subsection \<open>\<open>urlparse.urlparse\<close>\<close>

text \<open>
  The parser of Python 2.7's \<open>urlparse\<close> module (the standard library of the
  interpreter the program is written for), for the three attributes the program
  reads: \<open>scheme\<close>, \<open>netloc\<close> and \<open>path\<close>.  \<open>urlsplit\<close> takes a scheme when the text
  before the first colon is not empty and is \<open>http\<close>, or consists of scheme characters
  and is not followed by a port number; a leading \<open>//\<close> starts the netloc, which ends
  at the first of \<open>/ ? #\<close>; the fragment and the query are cut off the rest.
  \<open>urlparse\<close> then cuts the parameters of the last path segment off, for the schemes
  of \<open>uses_params\<close>.
\<close>

record ParseResult =
  url_scheme :: string
  url_netloc :: string
  url_path :: string

definition scheme_chars :: string where
  "scheme_chars = ''abcdefghijklmnopqrstuvwxyzABCDEFGHIJKLMNOPQRSTUVWXYZ0123456789+-.''"

definition uses_params :: "string list" where
  "uses_params = [''ftp'', ''hdl'', ''prospero'', ''http'', ''imap'', ''https'', ''shttp'',
     ''rtsp'', ''rtspu'', ''sip'', ''sips'', ''mms'', [], ''sftp'', ''tel'']"

definition split_scheme :: "string \<Rightarrow> string \<times> string" where
  "split_scheme url =
     (let pre = before_first CHR '':'' url; rest = after_first CHR '':'' url in
      if CHR '':'' \<in> set url \<and> pre \<noteq> [] then
        if pre = ''http'' then (lower pre, rest)
        else if list_all (\<lambda>c. c \<in> set scheme_chars) pre
                \<and> (rest = [] \<or> list_ex (\<lambda>c. c \<notin> set ''0123456789'') rest)
          then (lower pre, rest)
        else ([], url)
      else ([], url))"

definition splitnetloc :: "string \<Rightarrow> string \<times> string" where
  "splitnetloc url =
     (takeWhile (\<lambda>c. c \<notin> set ''/?#'') (drop 2 url),
      dropWhile (\<lambda>c. c \<notin> set ''/?#'') (drop 2 url))"

definition urlsplit :: "string \<Rightarrow> exn + ParseResult" where
  "urlsplit url =
     (let (scheme, url1) = split_scheme url;
          (netloc, url2) = (if take 2 url1 = ''//'' then splitnetloc url1 else ([], url1))
      in if (CHR ''['' \<in> set netloc \<and> CHR '']'' \<notin> set netloc)
            \<or> (CHR '']'' \<in> set netloc \<and> CHR ''['' \<notin> set netloc)
         then Inl (ValueError ''Invalid IPv6 URL'')
         else Inr \<lparr>url_scheme = scheme, url_netloc = netloc,
                   url_path = before_first CHR ''?'' (before_first CHR ''#'' url2)\<rparr>)"

text \<open>The first component of \<open>_splitparams\<close>, called where \<open>;\<close> occurs in the path.\<close>

definition splitparams :: "string \<Rightarrow> string" where
  "splitparams url =
     (if CHR ''/'' \<in> set url then
        (let head = butlast (upto_last CHR ''/'' url); tail = drop (length head) url in
         if CHR '';'' \<in> set tail then head @ before_first CHR '';'' tail else url)
      else before_first CHR '';'' url)"

definition urlparse :: "string \<Rightarrow> exn + ParseResult" where
  "urlparse url =
     (case urlsplit url of
        Inl e \<Rightarrow> Inl e
      | Inr r \<Rightarrow>
          if url_scheme r \<in> set uses_params \<and> CHR '';'' \<in> set (url_path r)
          then Inr (r\<lparr>url_path := splitparams (url_path r)\<rparr>)
          else Inr r)"

section \<open>make\_pathset: URIs, path resolution, wildcard expansion\<close>

subsection \<open>class \<open>Uri\<close>\<close>

record Uri =
  scheme :: string
  netloc :: string
  path :: string

text \<open>
  The arguments of the constructor: one object that has the attributes \<open>scheme\<close>,
  \<open>netloc\<close> and \<open>path\<close> (a parse result, or another \<open>Uri\<close>), three positional values, or
  anything else.  An absent scheme or host is the empty string, as the parser gives it.
\<close>

datatype uri_args =
    WithAttrs string string string
  | Three string string string
  | OtherArgs

text \<open>The checks of \<open>__init__\<close> once the three fields are assigned.\<close>

definition Uri_validate :: "Uri \<Rightarrow> exn + Uri" where
  "Uri_validate u =
     (if scheme u = ''file'' \<and> netloc u \<noteq> []
        then Inl (ValueError ''Can't specify a netloc with file: scheme'')
      else if scheme u = ''file'' \<and> path u \<noteq> [] \<and> \<not> startswith (path u) CHR ''/''
        then Inl (ValueError
               (''Must use absolute paths with file: scheme (found '' @ path u @ '')''))
      else if netloc u \<noteq> [] \<and> scheme u = []
        then Inl (ValueError ''Can't specify a host without an access scheme'')
      else Inr u)"

fun Uri_init :: "uri_args \<Rightarrow> exn + Uri" where
  "Uri_init (WithAttrs s n p) = Uri_validate \<lparr>scheme = s, netloc = n, path = p\<rparr>"
| "Uri_init (Three s n p) = Uri_validate \<lparr>scheme = s, netloc = n, path = p\<rparr>"
| "Uri_init OtherArgs = Inl (ValueError [])"

text \<open>\<open>Uri(urlparse.urlparse(s))\<close>.\<close>

definition Uri_of_url :: "string \<Rightarrow> exn + Uri" where
  "Uri_of_url s =
     (case urlparse s of
        Inl e \<Rightarrow> Inl e
      | Inr r \<Rightarrow> Uri_init (WithAttrs (url_scheme r) (url_netloc r) (url_path r)))"

definition geturl :: "Uri \<Rightarrow> string" where
  "geturl u = (if scheme u \<noteq> [] then scheme u @ ''://'' @ netloc u @ path u else path u)"

subsection \<open>\<open>resolve_datapath\<close>\<close>

text \<open>
  \<open>phdfs.path.abspath\<close> belongs to the Hadoop client library and asks the configured
  file system: it is the argument \<open>hdfs_abspath\<close>, which may raise.  \<open>cwd\<close> is the
  process's current directory.
\<close>

definition resolve_datapath ::
  "(string \<Rightarrow> exn + string) \<Rightarrow> string \<Rightarrow> string \<Rightarrow> string \<Rightarrow> exn + Uri" where
  "resolve_datapath hdfs_abspath cwd mode datapath =
     (case Uri_of_url datapath of
        Inl e \<Rightarrow> Inl e
      | Inr u \<Rightarrow>
          if path u = [] then Inl (RuntimeError (''blank path in '' @ datapath))
          else if mode = ''default'' \<and> scheme u = [] then
            (case hdfs_abspath (path u) of
               Inl e \<Rightarrow> Inl e
             | Inr a \<Rightarrow> Uri_of_url a)
          else if mode = ''local'' then
            (if scheme u \<noteq> [] \<and> scheme u \<noteq> ''file''
             then Inl (RuntimeError
                    (''Specified local mode but datapath is a URI with scheme '' @ scheme u
                     @ '' (expected no scheme or 'file')''))
             else Inr (u\<lparr>scheme := ''file'', netloc := [],
                         path := os_path_abspath cwd datapath\<rparr>))
          else Inr u)"

subsection \<open>\<open>expand_paths\<close>\<close>

text \<open>The inner function \<open>process\<close>; \<open>rindex\<close> raises when the line has no space.\<close>

definition process :: "Uri \<Rightarrow> string \<Rightarrow> exn + string" where
  "process datapath_uri ls_line =
     (if CHR '' '' \<notin> set ls_line then Inl (ValueError ''substring not found'')
      else
        (case Uri_of_url (after_last CHR '' '' ls_line) of
           Inl e \<Rightarrow> Inl e
         | Inr url \<Rightarrow>
             Inr (geturl (url\<lparr>scheme := scheme datapath_uri,
                               netloc := netloc datapath_uri\<rparr>))))"

text \<open>
  The outside world of \<open>expand_paths\<close>: \<open>hdfs_exists\<close> is \<open>phdfs.path.exists\<close>,
  \<open>hadoop_exec\<close> the result of \<open>pydoop.hadoop_exec()\<close>, and \<open>check_output\<close> is
  \<open>subprocess.check_output\<close>, which returns the standard output of the command or
  raises (\<open>CalledProcessError\<close> on a non-zero exit status).  Only \<open>CalledProcessError\<close>
  is caught, and turned into \<open>sys.exit(1)\<close>.
\<close>

definition expand_paths ::
  "(string \<Rightarrow> bool) \<Rightarrow> (exn + string) \<Rightarrow> (string list \<Rightarrow> exn + string) \<Rightarrow> Uri
     \<Rightarrow> exn + string list" where
  "expand_paths hdfs_exists hadoop_exec check_output datapath_uri =
     (if hdfs_exists (geturl datapath_uri) then Inr [geturl datapath_uri]
      else
        (case hadoop_exec of
           Inl (CalledProcessError rc) \<Rightarrow> Inl (SystemExit 1)
         | Inl e \<Rightarrow> Inl e
         | Inr hadoop \<Rightarrow>
             (case check_output [hadoop, ''dfs'', ''-ls'', geturl datapath_uri] of
                Inl (CalledProcessError rc) \<Rightarrow> Inl (SystemExit 1)
              | Inl e \<Rightarrow> Inl e
              | Inr out \<Rightarrow>
                  map_exn (process datapath_uri)
                    (tl (split CHR ''\<newline>'' (rstrip CHR ''\<newline>'' out))))))"

section \<open>hadoop\_galaxy: the tool runner and the orchestrator\<close>

subsection \<open>Dictionaries and optional strings\<close>

text \<open>
  \<open>os.environ\<close>, the command environment and \<open>tool_env\<close> are dictionaries from strings
  to strings: association lists with one entry for a key, the empty dictionary being
  the empty list.  \<open>d.get(k)\<close> is \<open>map_of d k\<close>; \<open>d[k] = v\<close> is \<open>dict_set\<close>.
\<close>

type_synonym environ = "(string \<times> string) list"

fun dict_set :: "string \<Rightarrow> string \<Rightarrow> environ \<Rightarrow> environ" where
  "dict_set k v [] = [(k, v)]"
| "dict_set k v ((k', v') # d) =
     (if k' = k then (k, v) # d else (k', v') # dict_set k v d)"

text \<open>The truth value of an optional string: \<open>None\<close> and the empty string are false.\<close>

fun truthy :: "string option \<Rightarrow> bool" where
  "truthy None = False"
| "truthy (Some s) = (s \<noteq> [])"

text \<open>\<open>a or b\<close> on optional strings.\<close>

definition py_or :: "string option \<Rightarrow> string option \<Rightarrow> string option" where
  "py_or a b = (if truthy a then a else b)"

text \<open>\<open>env or os.environ\<close>: an environment that is \<open>None\<close> or empty gives way to the
  environment of the process.\<close>

fun env_or :: "environ option \<Rightarrow> environ \<Rightarrow> environ" where
  "env_or None os_environ = os_environ"
| "env_or (Some e) os_environ = (if e = [] then os_environ else e)"

text \<open>\<open>"%s" % x\<close> for an optional string.\<close>

fun str_opt :: "string option \<Rightarrow> string" where
  "str_opt None = ''None''"
| "str_opt (Some s) = s"

definition EnvOutputDataDir :: string where
  "EnvOutputDataDir = ''HADOOP_GALAXY_DATA_DIR''"

definition EnvConfPath :: string where
  "EnvConfPath = ''HADOOP_GALAXY_CONF''"

definition HadoopOutputDirName :: string where
  "HadoopOutputDirName = ''hadoop_output''"

subsection \<open>Pathsets\<close>

text \<open>
  Modelled from the spec: the classes \<open>Pathset\<close> and \<open>FilePathset\<close> of
  \<open>hadoop_galaxy.pathset\<close> are not among the sources.  By section 3 of the
  specification a pathset is an ordered sequence of entries, each the canonical string
  of a URI, with an optional data-type tag; \<open>len(pset)\<close> counts the entries, iteration
  yields them in order, \<open>get_paths()\<close> is the list of them, and \<open>FilePathset(p)\<close> wraps
  the one entry \<open>p\<close> (section 4.5).
\<close>

record Pathset =
  paths :: "string list"
  datatype_tag :: "string option"

text \<open>Modelled from the spec: \<open>len(pset)\<close>, the number of entries.\<close>

definition Pathset_len :: "Pathset \<Rightarrow> nat" where
  "Pathset_len pset = length (paths pset)"

text \<open>Modelled from the spec: \<open>iter(pset).next()\<close>, the first entry in the order of the
  pathset; the iterator of an empty pathset raises \<open>StopIteration\<close>.\<close>

definition Pathset_iter_next :: "Pathset \<Rightarrow> exn + string" where
  "Pathset_iter_next pset = (case paths pset of [] \<Rightarrow> Inl StopIteration | p # ps \<Rightarrow> Inr p)"

text \<open>Modelled from the spec: \<open>pset.get_paths()\<close>, the entries as an ordered list of
  strings.\<close>

definition get_paths :: "Pathset \<Rightarrow> string list" where
  "get_paths pset = paths pset"

text \<open>Modelled from the spec: \<open>FilePathset(p)\<close>, the pathset that wraps the one entry
  \<open>p\<close>, without a tag.\<close>

definition FilePathset :: "string \<Rightarrow> Pathset" where
  "FilePathset p = \<lparr>paths = [p], datatype_tag = None\<rparr>"

subsection \<open>class \<open>HadoopToolRunner\<close>\<close>

record HadoopToolRunner =
  executable :: "string option"
  input_params :: "string list option"
  output_str :: "string option"
  generic_opts :: "string list"

definition HadoopToolRunner_init :: "string option \<Rightarrow> HadoopToolRunner" where
  "HadoopToolRunner_init exe =
     \<lparr>executable = exe, input_params = None, output_str = None, generic_opts = []\<rparr>"

definition set_input :: "HadoopToolRunner \<Rightarrow> Pathset \<Rightarrow> HadoopToolRunner" where
  "set_input self pset = self\<lparr>input_params := Some (get_paths pset)\<rparr>"

definition set_output :: "HadoopToolRunner \<Rightarrow> Pathset \<Rightarrow> exn + HadoopToolRunner" where
  "set_output self pset =
     (if Pathset_len pset \<noteq> 1
      then Inl (RuntimeError (''Expecting an output pathset containing one path, but got ''
                  @ str_nat (Pathset_len pset)))
      else (case Pathset_iter_next pset of
              Inl e \<Rightarrow> Inl e
            | Inr p \<Rightarrow> Inr (self\<lparr>output_str := Some p\<rparr>)))"

definition runner_parse_args :: "HadoopToolRunner \<Rightarrow> string list \<Rightarrow> HadoopToolRunner" where
  "runner_parse_args self args_list = self\<lparr>generic_opts := args_list\<rparr>"

text \<open>
  \<open>command\<close>.  \<open>get_abs_executable_path\<close> of \<open>hadoop_galaxy.utils\<close> is not among the
  sources: it is the argument \<open>find_exe\<close>, called with the executable and the
  environment \<open>env or os.environ\<close>.
\<close>

definition command ::
  "(string \<Rightarrow> environ \<Rightarrow> exn + string) \<Rightarrow> environ \<Rightarrow> HadoopToolRunner \<Rightarrow> environ option
     \<Rightarrow> exn + string list" where
  "command find_exe os_environ self env =
     (case executable self of
        None \<Rightarrow> Inl (RuntimeError ''executable not set!'')
      | Some exe \<Rightarrow>
     (case input_params self of
        None \<Rightarrow> Inl (RuntimeError ''Input parameters not set!'')
      | Some ins \<Rightarrow>
     (case output_str self of
        None \<Rightarrow> Inl (RuntimeError ''output path not set!'')
      | Some out \<Rightarrow>
     (case find_exe exe (env_or env os_environ) of
        Inl e \<Rightarrow> Inl e
      | Inr full_path \<Rightarrow> Inr ([full_path] @ generic_opts self @ ins @ [out])))))"

text \<open>
  Modelled from the spec: \<open>get_abs_executable_path\<close> itself, by section 4.4: an
  executable that is already absolute is returned as it is; otherwise the directories
  of the \<open>PATH\<close> entry of the given environment are searched in order, and the search
  fails with \<open>ExecutableNotFound\<close> when none holds the executable.  \<open>is_file\<close> says
  which paths exist.
\<close>

definition get_abs_executable_path ::
  "(string \<Rightarrow> bool) \<Rightarrow> string \<Rightarrow> environ \<Rightarrow> exn + string" where
  "get_abs_executable_path is_file exec_name env =
     (if os_path_isabs exec_name then Inr exec_name
      else
        (case find (\<lambda>d. is_file (os_path_join d exec_name))
                (case map_of env ''PATH'' of None \<Rightarrow> [] | Some p \<Rightarrow> split CHR '':'' p) of
           None \<Rightarrow> Inl (ExecutableNotFound exec_name)
         | Some d \<Rightarrow> Inr (os_path_join d exec_name)))"

subsection \<open>The outside world of a run\<close>

text \<open>
  The state a run works on: the local file system, a dictionary from the path of a
  file to its content, and the entries of \<open>os.environ\<close>, which live in the \<open>data\<close>
  dictionary of that object.  A record extension can carry whatever else the outside
  world keeps (the distributed file system).  The operations of the Hadoop client
  library, the YAML parser, the pathset reader and writer and the external tool are
  the fields of \<open>ext\<close>: each takes the state and, where it changes it, returns the new
  one.
\<close>

record world =
  files :: "(string \<times> string) list"
  os_environ_data :: environ

record conf_dict =
  HADOOP_HOME :: "string option"
  HADOOP_CONF_DIR :: "string option"
  tool_env :: "environ option"

text \<open>What \<open>yaml.load\<close> returns: a mapping with the keys the program reads, or some
  other object (\<open>None\<close> for an empty file).\<close>

datatype yaml_doc = YMapping conf_dict | YOther

record 'w ext =
  yaml_load :: "string \<Rightarrow> exn + yaml_doc"
  from_file :: "string \<Rightarrow> exn + Pathset"
  pathset_write :: "Pathset \<Rightarrow> string"
  find_executable :: "string \<Rightarrow> environ \<Rightarrow> exn + string"
  phdfs_rmr :: "string \<Rightarrow> 'w \<Rightarrow> (exn + unit) \<times> 'w"
  phdfs_path_exists :: "string \<Rightarrow> 'w \<Rightarrow> bool"
  phdfs_path_dirname :: "string \<Rightarrow> string"
  phdfs_mkdir :: "string \<Rightarrow> 'w \<Rightarrow> (exn + unit) \<times> 'w"
  check_call :: "string list \<Rightarrow> environ option \<Rightarrow> 'w \<Rightarrow> (exn + unit) \<times> 'w"
  can_open_w :: "string \<Rightarrow> 'w \<Rightarrow> bool"

text \<open>\<open>try: ... except IOError as e: logger.warning(e)\<close>.\<close>

fun except_IOError :: "exn + unit \<Rightarrow> exn + unit" where
  "except_IOError (Inl (IOError m)) = Inr ()"
| "except_IOError r = r"

text \<open>
  \<open>execute\<close>: build the command, remove the output path, create the parent of the
  output path when it does not exist, run the command.  The output path is set when
  \<open>command\<close> has returned.  \<open>env\<close> is the dictionary the caller passes, with the
  entries it has at the call.
\<close>

definition execute ::
  "'a world_scheme ext \<Rightarrow> HadoopToolRunner \<Rightarrow> environ option \<Rightarrow> 'a world_scheme
     \<Rightarrow> (exn + unit) \<times> 'a world_scheme" where
  "execute X self env w =
     (case command (find_executable X) (os_environ_data w) self env of
        Inl e \<Rightarrow> (Inl e, w)
      | Inr cmd \<Rightarrow>
     (case output_str self of
        None \<Rightarrow> (Inl (RuntimeError ''output path not set!''), w)
      | Some out \<Rightarrow>
     (case phdfs_rmr X out w of (removed, w1) \<Rightarrow>
     (case except_IOError removed of
        Inl e \<Rightarrow> (Inl e, w1)
      | Inr u \<Rightarrow>
          if \<not> phdfs_path_exists X (phdfs_path_dirname X out) w1 then
            (case phdfs_mkdir X (phdfs_path_dirname X out) w1 of
               (Inl e, w2) \<Rightarrow> (Inl e, w2)
             | (Inr u, w2) \<Rightarrow> check_call X cmd env w2)
          else check_call X cmd env w1))))"

subsection \<open>class \<open>HadoopGalaxy\<close>\<close>

text \<open>The parsed command line: the attributes of the \<open>argparse\<close> namespace.\<close>

record options =
  opt_input :: string
  opt_input_format :: "string option"
  opt_output :: string
  opt_append_python_path :: "string option"
  opt_output_data_dir :: "string option"
  opt_conf :: "string option"
  opt_remaining_args :: "string list"
  opt_executable :: "string option"

text \<open>
  The attribute \<open>_cmd_env\<close> refers to a dictionary object.  \<open>__init__\<close> gives it a
  dictionary of its own (\<open>dict()\<close>).  \<open>copy.copy(os.environ)\<close> is a shallow copy: a new
  object of the class of \<open>os.environ\<close> with the same attributes, so that its \<open>data\<close> is
  the very dictionary of \<open>os.environ\<close>.  An entry stored through the copy is then an
  entry of \<open>os.environ\<close>, and the copy shows the entries of \<open>os.environ\<close>: this is
  \<open>Shared\<close>.
\<close>

datatype env_ref = Own environ | Shared

record HadoopGalaxy =
  self_conf :: yaml_doc
  self_runner :: "HadoopToolRunner option"
  self_cmd_env :: env_ref

definition HadoopGalaxy_init :: HadoopGalaxy where
  "HadoopGalaxy_init =
     \<lparr>self_conf = YMapping \<lparr>HADOOP_HOME = None, HADOOP_CONF_DIR = None, tool_env = None\<rparr>,
      self_runner = None, self_cmd_env = Own []\<rparr>"

text \<open>The entries seen through \<open>self._cmd_env\<close>.\<close>

definition cmd_env :: "HadoopGalaxy \<Rightarrow> 'a world_scheme \<Rightarrow> environ" where
  "cmd_env self w =
     (case self_cmd_env self of Own d \<Rightarrow> d | Shared \<Rightarrow> os_environ_data w)"

text \<open>\<open>self._cmd_env[k] = v\<close>.\<close>

definition cmd_env_setitem ::
  "string \<Rightarrow> string \<Rightarrow> HadoopGalaxy \<times> 'a world_scheme \<Rightarrow> HadoopGalaxy \<times> 'a world_scheme" where
  "cmd_env_setitem k v sw =
     (case self_cmd_env (fst sw) of
        Own d \<Rightarrow> ((fst sw)\<lparr>self_cmd_env := Own (dict_set k v d)\<rparr>, snd sw)
      | Shared \<Rightarrow>
          (fst sw, (snd sw)\<lparr>os_environ_data := dict_set k v (os_environ_data (snd sw))\<rparr>))"

definition set_hadoop_conf ::
  "HadoopGalaxy \<Rightarrow> 'a world_scheme \<Rightarrow> (exn + HadoopGalaxy) \<times> 'a world_scheme" where
  "set_hadoop_conf self w =
     (case self_conf self of
        YOther \<Rightarrow> (Inl (AttributeError ''has_key''), w)
      | YMapping c \<Rightarrow>
          (let sw1 = (case HADOOP_HOME c of
                        None \<Rightarrow> (self, w)
                      | Some v \<Rightarrow> cmd_env_setitem ''HADOOP_HOME'' v (self, w));
               sw2 = (case HADOOP_CONF_DIR c of
                        None \<Rightarrow> sw1
                      | Some v \<Rightarrow> cmd_env_setitem ''HADOOP_CONF_DIR'' v sw1)
           in (Inr (fst sw2), snd sw2)))"

definition gen_data_output_path :: "options \<Rightarrow> environ \<Rightarrow> string option \<Rightarrow> string" where
  "gen_data_output_path opts os_environ name =
     (let suffix_path = (if truthy name then str_opt name
                         else os_path_basename (opt_output opts));
          datapath =
            (if truthy (opt_output_data_dir opts) then str_opt (opt_output_data_dir opts)
             else if truthy (map_of os_environ EnvOutputDataDir)
               then str_opt (map_of os_environ EnvOutputDataDir)
             else os_path_join (os_path_dirname (opt_output opts)) HadoopOutputDirName)
      in os_path_join datapath suffix_path)"

text \<open>The \<open>try\<close> block of \<open>_configure_for_job\<close>: an \<open>IOError\<close> ends the process with
  \<open>sys.exit(1)\<close>, any other exception goes on to the caller.\<close>

definition load_conf :: "'a world_scheme ext \<Rightarrow> string \<Rightarrow> 'a world_scheme \<Rightarrow> exn + yaml_doc" where
  "load_conf X conf_file w =
     (case map_of (files w) conf_file of
        None \<Rightarrow> Inl (SystemExit 1)
      | Some content \<Rightarrow>
          (case yaml_load X content of
             Inl (IOError m) \<Rightarrow> Inl (SystemExit 1)
           | Inl e \<Rightarrow> Inl e
           | Inr doc \<Rightarrow> Inr doc))"

text \<open>
  \<open>_configure_for_job\<close>.  From its first statement on \<open>_cmd_env\<close> is the shallow copy of
  \<open>os.environ\<close>, so the entries that \<open>_set_hadoop_conf\<close> and the loop over \<open>tool_env\<close>
  store are entries of \<open>os.environ\<close> as well.
\<close>

definition configure_for_job ::
  "'a world_scheme ext \<Rightarrow> HadoopGalaxy \<Rightarrow> options \<Rightarrow> 'a world_scheme
     \<Rightarrow> (exn + HadoopGalaxy) \<times> 'a world_scheme" where
  "configure_for_job X self opts w =
     (let conf_file = py_or (opt_conf opts) (map_of (os_environ_data w) EnvConfPath) in
      case (if truthy conf_file then load_conf X (str_opt conf_file) w
            else Inr (YMapping \<lparr>HADOOP_HOME = None, HADOOP_CONF_DIR = None,
                                 tool_env = None\<rparr>)) of
        Inl e \<Rightarrow> (Inl e, w)
      | Inr doc \<Rightarrow>
     (case set_hadoop_conf (self\<lparr>self_cmd_env := Shared, self_conf := doc\<rparr>) w of
        (Inl e, w1) \<Rightarrow> (Inl e, w1)
      | (Inr self1, w1) \<Rightarrow>
     (case (if opt_remaining_args opts \<noteq> [] then
              (case self_runner self1 of
                 None \<Rightarrow> Inl (AttributeError ''parse_args'')
               | Some r \<Rightarrow>
                   Inr (self1\<lparr>self_runner :=
                                Some (runner_parse_args r (opt_remaining_args opts))\<rparr>))
            else Inr self1) of
        Inl e \<Rightarrow> (Inl e, w1)
      | Inr self2 \<Rightarrow>
          (case self_conf self2 of
             YOther \<Rightarrow> (Inl (AttributeError ''get''), w1)
           | YMapping c \<Rightarrow>
               (case tool_env c of
                  None \<Rightarrow> (Inr self2, w1)
                | Some te \<Rightarrow>
                    (case fold (\<lambda>kv. cmd_env_setitem (fst kv) (snd kv)) te (self2, w1) of
                       (self3, w2) \<Rightarrow> (Inr self3, w2)))))))"

text \<open>The \<open>except\<close> clauses of \<open>run\<close>: a \<open>CalledProcessError\<close> becomes a
  \<open>RuntimeError\<close> with a message for the exit status (no message is bound for the
  status 0); an \<open>OSError\<close>, like any other exception, goes on as it is.\<close>

fun run_except :: "options \<Rightarrow> exn \<Rightarrow> exn" where
  "run_except opts (CalledProcessError returncode) =
     (if returncode < 0
        then RuntimeError (str_opt (opt_executable opts) @ '' was terminated by signal ''
                           @ str_int returncode)
      else if returncode > 0
        then RuntimeError (str_opt (opt_executable opts) @ '' exit code: ''
                           @ str_int returncode)
      else UnboundLocalError ''msg'')"
| "run_except opts e = e"

text \<open>
  \<open>run\<close>.  \<open>gen_data_output_path\<close> reads \<open>os.environ\<close> as the configuration has left
  it, and \<open>execute\<close> gets \<open>self._cmd_env\<close>.  Opening the output file for writing either
  raises an \<open>IOError\<close> and leaves the files as they are, or succeeds, and the file then
  holds the serialized pathset.
\<close>

definition run ::
  "'a world_scheme ext \<Rightarrow> HadoopGalaxy \<Rightarrow> options \<Rightarrow> 'a world_scheme
     \<Rightarrow> (exn + HadoopGalaxy) \<times> 'a world_scheme" where
  "run X self opts w =
     (case configure_for_job X self opts w of
        (Inl e, w0) \<Rightarrow> (Inl e, w0)
      | (Inr self1, w0) \<Rightarrow>
     (case map_of (files w0) (opt_input opts) of
        None \<Rightarrow> (Inl (IOError (opt_input opts)), w0)
      | Some content \<Rightarrow>
     (case from_file X content of
        Inl e \<Rightarrow> (Inl e, w0)
      | Inr input_pathset \<Rightarrow>
     (let output_pathset =
            FilePathset (gen_data_output_path opts (os_environ_data w0) None) in
      case self_runner self1 of
        None \<Rightarrow> (Inl (AttributeError ''set_input''), w0)
      | Some r \<Rightarrow>
     (case set_output (set_input r input_pathset) output_pathset of
        Inl e \<Rightarrow> (Inl (run_except opts e), w0)
      | Inr r1 \<Rightarrow>
     (case execute X r1 (Some (cmd_env self1 w0)) w0 of
        (Inl e, w1) \<Rightarrow> (Inl (run_except opts e), w1)
      | (Inr u, w1) \<Rightarrow>
          if can_open_w X (opt_output opts) w1
          then (Inr (self1\<lparr>self_runner := Some r1\<rparr>),
                w1\<lparr>files := dict_set (opt_output opts) (pathset_write X output_pathset)
                                (files w1)\<rparr>)
          else (Inl (IOError (opt_output opts)), w1)))))))"

subsection \<open>A Hadoop installation on the local file system\<close>

text \<open>
  An outside world to run the model in: the Hadoop client works on the local file
  system, so a path names the same object for \<open>phdfs\<close> and for \<open>open\<close>, which is the
  set-up the documentation of \<open>gen_data_output_path\<close> describes for its default.
  Directories are not stored: a path exists when it is a file or has a file below it.
  \<open>rmr\<close> removes the path and everything below it and raises \<open>IOError\<close> when there is
  nothing to remove.  The tool does nothing and ends with the exit status \<open>rc\<close>; it is
  found at \<open>/usr/bin/hadoop_tool\<close>.  A pathset file holds one entry on a line, and
  the configuration file parses to \<open>doc\<close>.
\<close>

definition path_under :: "string \<Rightarrow> string \<Rightarrow> bool" where
  "path_under p k = (k = p \<or> take (Suc (length p)) k = p @ ''/'')"

definition local_rmr :: "string \<Rightarrow> 'a world_scheme \<Rightarrow> (exn + unit) \<times> 'a world_scheme" where
  "local_rmr p w =
     (if list_ex (\<lambda>kv. path_under p (fst kv)) (files w)
      then (Inr (), w\<lparr>files := filter (\<lambda>kv. \<not> path_under p (fst kv)) (files w)\<rparr>)
      else (Inl (IOError p), w))"

definition local_hadoop :: "int \<Rightarrow> yaml_doc \<Rightarrow> 'a world_scheme ext" where
  "local_hadoop rc doc =
     \<lparr>yaml_load = (\<lambda>content. Inr doc),
      from_file = (\<lambda>content. Inr \<lparr>paths = filter (\<lambda>l. l \<noteq> []) (split CHR ''\<newline>'' content),
                                   datatype_tag = None\<rparr>),
      pathset_write = (\<lambda>pset. concat (map (\<lambda>p. p @ ''\<newline>'') (paths pset))),
      find_executable = get_abs_executable_path (\<lambda>p. p = ''/usr/bin/hadoop_tool''),
      phdfs_rmr = local_rmr,
      phdfs_path_exists = (\<lambda>p w. list_ex (\<lambda>kv. path_under p (fst kv)) (files w)),
      phdfs_path_dirname = os_path_dirname,
      phdfs_mkdir = (\<lambda>p w. (Inr (), w)),
      check_call = (\<lambda>cmd env w. (if rc = 0 then Inr () else Inl (CalledProcessError rc), w)),
      can_open_w = (\<lambda>p w. True)\<rparr>"

definition no_conf :: yaml_doc where
  "no_conf = YMapping \<lparr>HADOOP_HOME = None, HADOOP_CONF_DIR = None, tool_env = None\<rparr>"

text \<open>
  The end-to-end scenario of the specification (section 8): the input pathset file
  lists two URIs, the declared output pathset file is \<open>/galaxy/data/job7.dataset\<close>
  (the workflow engine has created it, empty), and neither an output data directory
  nor an override is given.  A configuration file is at hand for the runs that name it.
\<close>

definition scenario_options :: options where
  "scenario_options =
     \<lparr>opt_input = ''/galaxy/data/job6.dataset'', opt_input_format = None,
      opt_output = ''/galaxy/data/job7.dataset'', opt_append_python_path = None,
      opt_output_data_dir = None, opt_conf = None, opt_remaining_args = [],
      opt_executable = Some ''hadoop_tool''\<rparr>"

definition scenario_galaxy :: HadoopGalaxy where
  "scenario_galaxy =
     HadoopGalaxy_init\<lparr>self_runner := Some (HadoopToolRunner_init (Some ''hadoop_tool''))\<rparr>"

definition scenario_world :: world where
  "scenario_world =
     \<lparr>files = [(''/galaxy/data/job6.dataset'', ''hdfs://nn/a.txt\<newline>hdfs://nn/b.txt\<newline>''),
               (''/galaxy/data/job7.dataset'', []),
               (''/galaxy/conf.yaml'', ''tool_env: {HADOOP_GALAXY_DATA_DIR: /galaxy/data}\<newline>'')],
      os_environ_data = [(''PATH'', ''/bin:/usr/bin'')]\<rparr>"

section \<open>Properties of make\_pathset\<close>

subsection \<open>Lists, lines and the exception-aware map\<close>

lemma map_exn_Inr_iff:
  "map_exn f xs = Inr ys \<longleftrightarrow> list_all2 (\<lambda>x y. f x = Inr y) xs ys"
proof (induction xs arbitrary: ys)
  case Nil
  then show ?case by auto
next
  case (Cons x xs)
  show ?case
  proof (cases "f x")
    case (Inl e)
    then show ?thesis by (auto simp: list_all2_Cons1)
  next
    case (Inr y)
    then show ?thesis
      using Cons.IH by (cases "map_exn f xs") (auto simp: list_all2_Cons1)
  qed
qed

lemma split_no_sep: "c \<notin> set s \<Longrightarrow> split c s = [s]"
  by (induction s) auto

lemma split_first_line: "c \<notin> set l \<Longrightarrow> split c (l @ c # rest) = l # split c rest"
  by (induction l) auto



subsection \<open>Construction of a \<open>Uri\<close>\<close>

lemma Uri_validate_Inr: "Uri_validate u = Inr v \<Longrightarrow> v = u"
  by (auto simp: Uri_validate_def split: if_splits)

lemma Uri_validate_raises:
  "raises (Uri_validate u) \<longleftrightarrow>
     (scheme u = ''file'' \<and> netloc u \<noteq> [])
   \<or> (scheme u = ''file'' \<and> path u \<noteq> [] \<and> \<not> startswith (path u) CHR ''/'')
   \<or> (netloc u \<noteq> [] \<and> scheme u = [])"
  by (auto simp: Uri_validate_def)

text \<open>
  C5 (as amended).  For every triple of scheme, host and path, given as three values or
  as the attributes of one object, the constructor raises \<open>ValueError\<close> exactly when
  the scheme is \<open>file\<close> and the host is not empty, or the scheme is \<open>file\<close> and the path
  is not empty and does not start with \<open>/\<close>, or the host is not empty and the scheme is
  empty; otherwise it returns the \<open>Uri\<close> of the three fields.  The constructor is a
  function of its arguments alone: it reads no file system and no network.
\<close>

theorem Uri_init_raises_iff:
  "(if (s = ''file'' \<and> n \<noteq> [])
        \<or> (s = ''file'' \<and> p \<noteq> [] \<and> \<not> startswith p CHR ''/'')
        \<or> (n \<noteq> [] \<and> s = [])
    then is_ValueError (Uri_init (Three s n p)) \<and> is_ValueError (Uri_init (WithAttrs s n p))
    else Uri_init (Three s n p) = Inr \<lparr>scheme = s, netloc = n, path = p\<rparr>
       \<and> Uri_init (WithAttrs s n p) = Inr \<lparr>scheme = s, netloc = n, path = p\<rparr>)"
  by (auto simp: Uri_validate_def)

theorem Uri_init_raises_iff_witness:
  "is_ValueError (Uri_init (Three ''file'' ''nn'' ''/a''))
   \<and> is_ValueError (Uri_init (Three ''file'' [] ''a/b''))
   \<and> is_ValueError (Uri_init (Three [] ''nn'' ''/a''))
   \<and> Uri_init (Three ''hdfs'' ''nn'' ''/a'')
       = Inr \<lparr>scheme = ''hdfs'', netloc = ''nn'', path = ''/a''\<rparr>"
  using Uri_init_raises_iff [of "''file''" "''nn''" "''/a''"]
    Uri_init_raises_iff [of "''file''" "[]" "''a/b''"]
    Uri_init_raises_iff [of "[]" "''nn''" "''/a''"]
    Uri_init_raises_iff [of "''hdfs''" "''nn''" "''/a''"]
  by simp

text \<open>
  C5 as stated fails: the empty path is not anchored at the root, and the constructor
  accepts it with the scheme \<open>file\<close>, the test of the path being guarded by
  \<open>self.path and ...\<close>.
\<close>

theorem Uri_init_file_empty_path_accepted:
  "Uri_init (Three ''file'' [] []) = Inr \<lparr>scheme = ''file'', netloc = [], path = []\<rparr>
   \<and> \<not> startswith [] CHR ''/'' \<and> \<not> os_path_isabs []"
  by (simp add: Uri_validate_def os_path_isabs_def)

subsection \<open>\<open>resolve_datapath\<close>\<close>

lemma Uri_of_url_fields:
  "Uri_of_url s = Inr u \<Longrightarrow>
     \<exists>r. urlparse s = Inr r \<and> scheme u = url_scheme r \<and> netloc u = url_netloc r
        \<and> path u = url_path r"
  by (auto simp: Uri_of_url_def split: sum.splits dest!: Uri_validate_Inr)

lemma resolve_local_cases:
  "resolve_datapath hdfs_abspath cwd ''local'' datapath =
     (case Uri_of_url datapath of
        Inl e \<Rightarrow> Inl e
      | Inr u \<Rightarrow>
          if path u = [] then Inl (RuntimeError (''blank path in '' @ datapath))
          else if scheme u \<noteq> [] \<and> scheme u \<noteq> ''file''
            then Inl (RuntimeError
                    (''Specified local mode but datapath is a URI with scheme '' @ scheme u
                     @ '' (expected no scheme or 'file')''))
          else Inr \<lparr>scheme = ''file'', netloc = [], path = os_path_abspath cwd datapath\<rparr>)"
  by (simp add: resolve_datapath_def split: sum.splits)

text \<open>In local mode a parsed scheme other than \<open>file\<close> and the empty one is rejected
  with a \<open>RuntimeError\<close>, and the function of the Hadoop client is not consulted.\<close>

lemma resolve_local_rejects_scheme:
  assumes "urlparse datapath = Inr r" "url_scheme r \<noteq> []" "url_scheme r \<noteq> ''file''"
  shows "is_RuntimeError (resolve_datapath hdfs_abspath cwd ''local'' datapath)"
  using assms
  by (auto simp: resolve_local_cases Uri_of_url_def Uri_validate_def split: sum.splits)

lemma resolve_local_ignores_hdfs:
  "resolve_datapath hdfs_abspath cwd ''local'' datapath
     = resolve_datapath hdfs_abspath' cwd ''local'' datapath"
  by (simp add: resolve_local_cases)

text \<open>
  C4.  In local mode the path of the result is \<open>os.path.abspath(datapath)\<close>, the
  absolute form of the whole raw string, not of its path component.  For the raw path
  \<open>file:///tmp/x\<close>, whose scheme the program accepts and whose path component is
  \<open>/tmp/x\<close>, a process running in \<open>/home/u\<close> gets the path \<open>/home/u/file:/tmp/x\<close>.
\<close>

theorem resolve_datapath_local_file_url:
  "resolve_datapath hdfs_abspath ''/home/u'' ''local'' ''file:///tmp/x''
     = Inr \<lparr>scheme = ''file'', netloc = [], path = ''/home/u/file:/tmp/x''\<rparr>
   \<and> urlparse ''file:///tmp/x''
     = Inr \<lparr>url_scheme = ''file'', url_netloc = [], url_path = ''/tmp/x''\<rparr>
   \<and> os_path_abspath ''/home/u'' ''/tmp/x'' = ''/tmp/x''"
  by code_simp






subsection \<open>\<open>expand_paths\<close>\<close>

lemma process_Inr_iff:
  "process u l = Inr r \<longleftrightarrow>
     CHR '' '' \<in> set l \<and>
     (\<exists>url. Uri_of_url (after_last CHR '' '' l) = Inr url
        \<and> r = geturl (url\<lparr>scheme := scheme u, netloc := netloc u\<rparr>))"
  by (cases "Uri_of_url (after_last CHR '' '' l)") (auto simp: process_def)

lemma expand_paths_listing:
  assumes "\<not> hdfs_exists (geturl u)" "hadoop_exec = Inr h"
    and "check_output [h, ''dfs'', ''-ls'', geturl u] = Inr out"
  shows "expand_paths hdfs_exists hadoop_exec check_output u =
           map_exn (process u) (tl (split CHR ''\<newline>'' (rstrip CHR ''\<newline>'' out)))"
  using assms by (simp add: expand_paths_def)

lemma geturl_with_scheme:
  "scheme u \<noteq> [] \<Longrightarrow>
     geturl (url\<lparr>scheme := scheme u, netloc := netloc u\<rparr>)
       = scheme u @ ''://'' @ netloc u @ path url"
  by (simp add: geturl_def)

text \<open>
  C7.  When the URL of the given URI names an existing object, \<open>expand_paths\<close> returns
  the one-element list of that URL, whatever the Hadoop executable and the listing
  command would answer: they are not consulted.
\<close>

theorem expand_paths_existing:
  assumes "hdfs_exists (geturl u)"
  shows "expand_paths hdfs_exists hadoop_exec check_output u = Inr [geturl u]"
  using assms by (simp add: expand_paths_def)

theorem expand_paths_existing_witness:
  "(\<lambda>p. p = ''hdfs://nn/data/a.txt'')
      (geturl \<lparr>scheme = ''hdfs'', netloc = ''nn'', path = ''/data/a.txt''\<rparr>)
   \<and> expand_paths (\<lambda>p. p = ''hdfs://nn/data/a.txt'') (Inl (OSError ''hadoop''))
        (\<lambda>cmd. Inl (CalledProcessError 1))
        \<lparr>scheme = ''hdfs'', netloc = ''nn'', path = ''/data/a.txt''\<rparr>
       = Inr [''hdfs://nn/data/a.txt'']"
proof -
  have e: "(\<lambda>p. p = ''hdfs://nn/data/a.txt'')
             (geturl \<lparr>scheme = ''hdfs'', netloc = ''nn'', path = ''/data/a.txt''\<rparr>)"
    by (simp add: geturl_def)
  have g: "geturl \<lparr>scheme = ''hdfs'', netloc = ''nn'', path = ''/data/a.txt''\<rparr>
             = ''hdfs://nn/data/a.txt''"
    by (simp add: geturl_def)
  from expand_paths_existing [of "\<lambda>p. p = ''hdfs://nn/data/a.txt''", OF e] e g
  show ?thesis by simp
qed

text \<open>
  C6 (as amended).  When the URL of the given URI names no existing object and the
  listing command succeeds with the output \<open>out\<close>, \<open>expand_paths\<close> returns the list
  \<open>urls\<close> exactly when the lines of \<open>out\<close> after the first one (the trailing newlines
  of \<open>out\<close> stripped) and \<open>urls\<close> correspond one to one and in the same order: the line
  contains a space character, the text after its last space character parses to a URI
  that the constructor accepts, and the entry is the URL of that URI with its scheme
  and host replaced by those of the given URI.  So the entries are as many as the
  lines after the first, in the order of the listing, and each carries the scheme and
  host of the given URI; a line without a space character makes the expansion raise.
\<close>

theorem expand_paths_listing_result:
  assumes "\<not> hdfs_exists (geturl u)" "hadoop_exec = Inr h"
    and "check_output [h, ''dfs'', ''-ls'', geturl u] = Inr out"
  shows "expand_paths hdfs_exists hadoop_exec check_output u = Inr urls \<longleftrightarrow>
           list_all2
             (\<lambda>l r. CHR '' '' \<in> set l \<and>
                (\<exists>url. Uri_of_url (after_last CHR '' '' l) = Inr url
                   \<and> r = geturl (url\<lparr>scheme := scheme u, netloc := netloc u\<rparr>)))
             (tl (split CHR ''\<newline>'' (rstrip CHR ''\<newline>'' out))) urls"
  using assms by (simp add: expand_paths_listing map_exn_Inr_iff process_Inr_iff)

text \<open>A header line and two path lines: two URLs, with the scheme and host of the
  pattern.\<close>

theorem expand_paths_listing_result_witness:
  "expand_paths (\<lambda>p. False) (Inr ''hadoop'')
     (\<lambda>cmd. Inr (''Found 2 items\<newline>''
        @ ''-rw-r--r--   3 u g   10 2014-01-01 10:00 /data/a.txt\<newline>''
        @ ''-rw-r--r--   3 u g   20 2014-01-01 10:01 /data/b.txt\<newline>''))
     \<lparr>scheme = ''hdfs'', netloc = ''nn'', path = ''/data/*.txt''\<rparr>
    = Inr [''hdfs://nn/data/a.txt'', ''hdfs://nn/data/b.txt'']
   \<and> list_all2
        (\<lambda>l r. CHR '' '' \<in> set l \<and>
           (\<exists>url. Uri_of_url (after_last CHR '' '' l) = Inr url
              \<and> r = geturl (url\<lparr>scheme := ''hdfs'', netloc := ''nn''\<rparr>)))
        [''-rw-r--r--   3 u g   10 2014-01-01 10:00 /data/a.txt'',
         ''-rw-r--r--   3 u g   20 2014-01-01 10:01 /data/b.txt'']
        [''hdfs://nn/data/a.txt'', ''hdfs://nn/data/b.txt'']"
proof -
  let ?u = "\<lparr>scheme = ''hdfs'', netloc = ''nn'', path = ''/data/*.txt''\<rparr>"
  let ?out = "''Found 2 items\<newline>''
        @ ''-rw-r--r--   3 u g   10 2014-01-01 10:00 /data/a.txt\<newline>''
        @ ''-rw-r--r--   3 u g   20 2014-01-01 10:01 /data/b.txt\<newline>''"
  have r: "expand_paths (\<lambda>p. False) (Inr ''hadoop'') (\<lambda>cmd. Inr ?out) ?u
             = Inr [''hdfs://nn/data/a.txt'', ''hdfs://nn/data/b.txt'']"
    by code_simp
  have l: "tl (split CHR ''\<newline>'' (rstrip CHR ''\<newline>'' ?out))
             = [''-rw-r--r--   3 u g   10 2014-01-01 10:00 /data/a.txt'',
                ''-rw-r--r--   3 u g   20 2014-01-01 10:01 /data/b.txt'']"
    by code_simp
  have "list_all2
          (\<lambda>l r. CHR '' '' \<in> set l \<and>
             (\<exists>url. Uri_of_url (after_last CHR '' '' l) = Inr url
                \<and> r = geturl (url\<lparr>scheme := scheme ?u, netloc := netloc ?u\<rparr>)))
          (tl (split CHR ''\<newline>'' (rstrip CHR ''\<newline>'' ?out)))
          [''hdfs://nn/data/a.txt'', ''hdfs://nn/data/b.txt'']"
    using expand_paths_listing_result
            [of "\<lambda>p. False" ?u "Inr ''hadoop''" "''hadoop''" "\<lambda>cmd. Inr ?out" ?out
                "[''hdfs://nn/data/a.txt'', ''hdfs://nn/data/b.txt'']"] r
    by blast
  with r l show ?thesis by simp
qed

text \<open>
  C6 as stated fails: the token is cut at the last space character, not at the last
  white space.  In a line whose last separator is a tab the text after the last space
  runs across the tab, and the entry is \<open>hdfs://nn10<TAB>/data/a.txt\<close>, not
  \<open>hdfs://nn/data/a.txt\<close>; a line that holds the path alone has no space, and the
  expansion raises \<open>ValueError\<close>.
\<close>

theorem expand_paths_token_after_last_space:
  "expand_paths (\<lambda>p. False) (Inr ''hadoop'')
     (\<lambda>cmd. Inr (''Found 1 items\<newline>'' @ ''-rw-r--r--   3 u g 10'' @ [CHR 0x09]
                    @ ''/data/a.txt\<newline>''))
     \<lparr>scheme = ''hdfs'', netloc = ''nn'', path = ''/data/*.txt''\<rparr>
    = Inr [''hdfs://nn10'' @ [CHR 0x09] @ ''/data/a.txt'']
   \<and> ''hdfs://nn10'' @ [CHR 0x09] @ ''/data/a.txt'' \<noteq> ''hdfs://nn/data/a.txt''
   \<and> expand_paths (\<lambda>p. False) (Inr ''hadoop'')
     (\<lambda>cmd. Inr ''Found 1 items\<newline>/data/a.txt\<newline>'')
     \<lparr>scheme = ''hdfs'', netloc = ''nn'', path = ''/data/*.txt''\<rparr>
    = Inl (ValueError ''substring not found'')"
  by code_simp

text \<open>
  C10.  When the listing succeeds, the first line of its output is dropped whatever it
  holds: if the output, its trailing newlines stripped, is a first line followed by
  \<open>rest\<close>, the result is that of processing the lines of \<open>rest\<close>; and if it is one
  line only, the result is the empty list.
\<close>

theorem expand_paths_drops_first_line:
  assumes "\<not> hdfs_exists (geturl u)" "hadoop_exec = Inr h"
    and "check_output [h, ''dfs'', ''-ls'', geturl u] = Inr out"
  shows "(\<forall>l rest. rstrip CHR ''\<newline>'' out = l @ CHR ''\<newline>'' # rest \<and> CHR ''\<newline>'' \<notin> set l \<longrightarrow>
            expand_paths hdfs_exists hadoop_exec check_output u
              = map_exn (process u) (split CHR ''\<newline>'' rest))
       \<and> (CHR ''\<newline>'' \<notin> set (rstrip CHR ''\<newline>'' out) \<longrightarrow>
            expand_paths hdfs_exists hadoop_exec check_output u = Inr [])"
  using assms by (simp add: expand_paths_listing split_first_line split_no_sep)

text \<open>A listing without a header line loses its first entry: one path line gives no
  entry, two path lines give the second only.\<close>

theorem expand_paths_drops_first_line_witness:
  "expand_paths (\<lambda>p. False) (Inr ''hadoop'')
     (\<lambda>cmd. Inr ''-rw-r--r--   3 u g   10 2014-01-01 10:00 /data/a.txt\<newline>'')
     \<lparr>scheme = ''hdfs'', netloc = ''nn'', path = ''/data/*.txt''\<rparr>
    = Inr []
   \<and> expand_paths (\<lambda>p. False) (Inr ''hadoop'')
     (\<lambda>cmd. Inr (''-rw-r--r--   3 u g   10 2014-01-01 10:00 /data/a.txt\<newline>''
        @ ''-rw-r--r--   3 u g   20 2014-01-01 10:01 /data/b.txt\<newline>''))
     \<lparr>scheme = ''hdfs'', netloc = ''nn'', path = ''/data/*.txt''\<rparr>
    = Inr [''hdfs://nn/data/b.txt'']"
proof -
  let ?u = "\<lparr>scheme = ''hdfs'', netloc = ''nn'', path = ''/data/*.txt''\<rparr>"
  let ?a = "''-rw-r--r--   3 u g   10 2014-01-01 10:00 /data/a.txt''"
  let ?b = "''-rw-r--r--   3 u g   20 2014-01-01 10:01 /data/b.txt''"
  have one: "CHR ''\<newline>'' \<notin> set (rstrip CHR ''\<newline>'' (?a @ ''\<newline>''))"
    by (simp add: rstrip_def)
  have first: "expand_paths (\<lambda>p. False) (Inr ''hadoop'') (\<lambda>cmd. Inr (?a @ ''\<newline>'')) ?u = Inr []"
    using expand_paths_drops_first_line
            [of "\<lambda>p. False" ?u "Inr ''hadoop''" "''hadoop''" "\<lambda>cmd. Inr (?a @ ''\<newline>'')"
                "?a @ ''\<newline>''"] one
    by blast
  have two: "rstrip CHR ''\<newline>'' (?a @ ''\<newline>'' @ ?b @ ''\<newline>'') = ?a @ CHR ''\<newline>'' # ?b"
    by (simp add: rstrip_def)
  have nl: "CHR ''\<newline>'' \<notin> set ?a"
    by simp
  have "expand_paths (\<lambda>p. False) (Inr ''hadoop'')
          (\<lambda>cmd. Inr (?a @ ''\<newline>'' @ ?b @ ''\<newline>'')) ?u
        = map_exn (process ?u) (split CHR ''\<newline>'' ?b)"
    using expand_paths_drops_first_line
            [of "\<lambda>p. False" ?u "Inr ''hadoop''" "''hadoop''"
                "\<lambda>cmd. Inr (?a @ ''\<newline>'' @ ?b @ ''\<newline>'')" "?a @ ''\<newline>'' @ ?b @ ''\<newline>''"]
          two nl
    by blast
  moreover have "map_exn (process ?u) (split CHR ''\<newline>'' ?b) = Inr [''hdfs://nn/data/b.txt'']"
    by code_simp
  ultimately show ?thesis using first by simp
qed

section \<open>Properties of the tool runner\<close>

lemma set_output_FilePathset:
  "set_output r (FilePathset p) = Inr (r\<lparr>output_str := Some p\<rparr>)"
  by (simp add: set_output_def FilePathset_def Pathset_len_def Pathset_iter_next_def)

lemma set_output_raises_iff:
  "raises (set_output self pset) \<longleftrightarrow> length (paths pset) \<noteq> 1"
  by (auto simp: set_output_def Pathset_len_def Pathset_iter_next_def split: list.splits)

text \<open>
  C2.  For every pathset, \<open>set_output\<close> raises the \<open>RuntimeError\<close> that reports the
  number of entries when the pathset has no entry or more than one, and when it has
  exactly one entry it returns, with that entry stored as the output path.
\<close>

theorem set_output_cardinality:
  "(length (paths pset) = 0 \<or> 2 \<le> length (paths pset) \<longrightarrow>
      set_output self pset =
        Inl (RuntimeError (''Expecting an output pathset containing one path, but got ''
               @ str_nat (length (paths pset)))))
   \<and> (\<forall>p. paths pset = [p] \<longrightarrow> set_output self pset = Inr (self\<lparr>output_str := Some p\<rparr>))"
  by (auto simp: set_output_def Pathset_len_def Pathset_iter_next_def)

theorem set_output_cardinality_witness:
  "set_output (HadoopToolRunner_init (Some ''tool'')) \<lparr>paths = [], datatype_tag = None\<rparr>
     = Inl (RuntimeError ''Expecting an output pathset containing one path, but got 0'')
   \<and> set_output (HadoopToolRunner_init (Some ''tool''))
         \<lparr>paths = [''hdfs://nn/a'', ''hdfs://nn/b''], datatype_tag = None\<rparr>
     = Inl (RuntimeError ''Expecting an output pathset containing one path, but got 2'')
   \<and> set_output (HadoopToolRunner_init (Some ''tool''))
         \<lparr>paths = [''hdfs://nn/out''], datatype_tag = Some ''fastq''\<rparr>
     = Inr \<lparr>executable = Some ''tool'', input_params = None,
            output_str = Some ''hdfs://nn/out'', generic_opts = []\<rparr>"
proof -
  have n0: "str_nat 0 = ''0''" and n2: "str_nat (Suc (Suc 0)) = ''2''"
    by code_simp+
  show ?thesis
    using set_output_cardinality
            [of "\<lparr>paths = [], datatype_tag = None\<rparr>" "HadoopToolRunner_init (Some ''tool'')"]
          set_output_cardinality
            [of "\<lparr>paths = [''hdfs://nn/a'', ''hdfs://nn/b''], datatype_tag = None\<rparr>"
                "HadoopToolRunner_init (Some ''tool'')"]
          set_output_cardinality
            [of "\<lparr>paths = [''hdfs://nn/out''], datatype_tag = Some ''fastq''\<rparr>"
                "HadoopToolRunner_init (Some ''tool'')"]
    by (simp add: n0 n2 HadoopToolRunner_init_def)
qed

text \<open>
  What \<open>command\<close> returns, for every function that resolves the executable: a
  \<open>RuntimeError\<close> when the executable, the input paths or the output path is not set;
  otherwise the exception of the resolution, or the argument list of the resolved
  executable, the options, the input paths and the output path, in this order.  The
  environment of the resolution is \<open>env or os.environ\<close>.
\<close>

lemma command_argv:
  "(executable self = None \<or> input_params self = None \<or> output_str self = None
      \<longrightarrow> is_RuntimeError (command find_exe os_environ self env))
   \<and> (\<forall>exe ins out.
        executable self = Some exe \<and> input_params self = Some ins \<and> output_str self = Some out
        \<longrightarrow> command find_exe os_environ self env =
             (case find_exe exe (case env of None \<Rightarrow> os_environ
                                  | Some e \<Rightarrow> if e = [] then os_environ else e) of
                Inl e \<Rightarrow> Inl e
              | Inr resolved \<Rightarrow> Inr ([resolved] @ generic_opts self @ ins @ [out])))"
  by (cases env) (auto simp: command_def split: option.splits sum.splits)

text \<open>With an environment that is given and holds the \<open>PATH\<close>, the executable is
  found through it, not through the \<open>PATH\<close> of the process.\<close>

lemma command_given_env:
  "command (get_abs_executable_path (\<lambda>p. p = ''/usr/bin/hadoop_tool''))
       [(''PATH'', ''/sbin'')]
       \<lparr>executable = Some ''hadoop_tool'', input_params = Some [''hdfs://nn/a'', ''hdfs://nn/b''],
        output_str = Some ''hdfs://nn/out'', generic_opts = [''-D'', ''x=1'']\<rparr>
       (Some [(''PATH'', ''/bin:/usr/bin'')])
     = Inr [''/usr/bin/hadoop_tool'', ''-D'', ''x=1'', ''hdfs://nn/a'', ''hdfs://nn/b'',
            ''hdfs://nn/out'']"
  by code_simp


section \<open>Properties of the orchestrator\<close>

subsection \<open>The output data path\<close>

text \<open>
  C3.  \<open>gen_data_output_path\<close> joins a base directory and a last component with
  \<open>os.path.join\<close>.  The base is the output data directory of the options when that is
  given (and not empty); otherwise the value of \<open>HADOOP_GALAXY_DATA_DIR\<close> in the
  environment when that is set (and not empty); otherwise \<open>hadoop_output\<close> joined to
  the directory of the declared output pathset file.  The last component is the name
  argument when given (and not empty), otherwise the base name of the declared output
  pathset file.
\<close>

theorem gen_data_output_path_precedence:
  "(let out = opt_output opts;
        odd = opt_output_data_dir opts;
        var = map_of os_environ ''HADOOP_GALAXY_DATA_DIR'';
        last_part = (case name of
                       None \<Rightarrow> os_path_basename out
                     | Some n \<Rightarrow> if n = [] then os_path_basename out else n)
    in (\<forall>d. odd = Some d \<and> d \<noteq> [] \<longrightarrow>
          gen_data_output_path opts os_environ name = os_path_join d last_part)
     \<and> (\<forall>e. (odd = None \<or> odd = Some []) \<and> var = Some e \<and> e \<noteq> [] \<longrightarrow>
          gen_data_output_path opts os_environ name = os_path_join e last_part)
     \<and> ((odd = None \<or> odd = Some []) \<and> (var = None \<or> var = Some []) \<longrightarrow>
          gen_data_output_path opts os_environ name
            = os_path_join (os_path_join (os_path_dirname out) ''hadoop_output'') last_part))"
  by (auto simp: gen_data_output_path_def EnvOutputDataDir_def HadoopOutputDirName_def Let_def
        split: option.splits)

text \<open>The option \<open>/x\<close> wins over the override \<open>/y\<close>; without the option the override
  is the base; without both the base is \<open>hadoop_output\<close> beside the declared file.\<close>

theorem gen_data_output_path_precedence_witness:
  "gen_data_output_path (scenario_options\<lparr>opt_output := ''/d/out.pathset'',
        opt_output_data_dir := Some ''/x''\<rparr>) [(''HADOOP_GALAXY_DATA_DIR'', ''/y'')] None
     = ''/x/out.pathset''
   \<and> gen_data_output_path (scenario_options\<lparr>opt_output := ''/d/out.pathset''\<rparr>)
        [(''HADOOP_GALAXY_DATA_DIR'', ''/y'')] None
     = ''/y/out.pathset''
   \<and> gen_data_output_path (scenario_options\<lparr>opt_output := ''/d/out.pathset''\<rparr>)
        [(''PATH'', ''/bin'')] None
     = ''/d/hadoop_output/out.pathset''
   \<and> gen_data_output_path (scenario_options\<lparr>opt_output := ''/d/out.pathset''\<rparr>)
        [(''PATH'', ''/bin'')] (Some ''part-0'')
     = ''/d/hadoop_output/part-0''"
proof -
  have j: "os_path_join ''/x'' (os_path_basename ''/d/out.pathset'') = ''/x/out.pathset''"
      "os_path_join ''/y'' (os_path_basename ''/d/out.pathset'') = ''/y/out.pathset''"
      "os_path_join (os_path_join (os_path_dirname ''/d/out.pathset'') ''hadoop_output'')
         (os_path_basename ''/d/out.pathset'') = ''/d/hadoop_output/out.pathset''"
      "os_path_join (os_path_join (os_path_dirname ''/d/out.pathset'') ''hadoop_output'')
         ''part-0'' = ''/d/hadoop_output/part-0''"
    by code_simp+
  show ?thesis
    using gen_data_output_path_precedence
            [of "scenario_options\<lparr>opt_output := ''/d/out.pathset'',
                   opt_output_data_dir := Some ''/x''\<rparr>"
                "[(''HADOOP_GALAXY_DATA_DIR'', ''/y'')]" None]
          gen_data_output_path_precedence
            [of "scenario_options\<lparr>opt_output := ''/d/out.pathset''\<rparr>"
                "[(''HADOOP_GALAXY_DATA_DIR'', ''/y'')]" None]
          gen_data_output_path_precedence
            [of "scenario_options\<lparr>opt_output := ''/d/out.pathset''\<rparr>"
                "[(''PATH'', ''/bin'')]" None]
          gen_data_output_path_precedence
            [of "scenario_options\<lparr>opt_output := ''/d/out.pathset''\<rparr>"
                "[(''PATH'', ''/bin'')]" "Some ''part-0''"]
    by (simp add: j scenario_options_def Let_def)
qed

subsection \<open>The declared output pathset file\<close>

text \<open>The configuration stores entries in \<open>os.environ\<close> and touches no file.\<close>

lemma cmd_env_setitem_files: "files (snd (cmd_env_setitem k v sw)) = files (snd sw)"
  by (simp add: cmd_env_setitem_def split: env_ref.splits)

lemma fold_cmd_env_setitem_files:
  "files (snd (fold (\<lambda>kv. cmd_env_setitem (fst kv) (snd kv)) te sw)) = files (snd sw)"
  by (induction te arbitrary: sw) (simp_all add: cmd_env_setitem_files)

lemma set_hadoop_conf_files: "files (snd (set_hadoop_conf self w)) = files w"
  by (simp add: set_hadoop_conf_def Let_def cmd_env_setitem_files
        split: yaml_doc.splits option.splits)

lemma configure_for_job_files: "files (snd (configure_for_job X self opts w)) = files w"
proof -
  let ?load = "if truthy (py_or (opt_conf opts) (map_of (os_environ_data w) EnvConfPath))
               then load_conf X
                      (str_opt (py_or (opt_conf opts) (map_of (os_environ_data w) EnvConfPath))) w
               else Inr (YMapping \<lparr>HADOOP_HOME = None, HADOOP_CONF_DIR = None,
                                    tool_env = None\<rparr>)"
  show ?thesis
  proof (cases ?load)
    case (Inl e)
    then show ?thesis by (simp add: configure_for_job_def Let_def)
  next
    case doc: (Inr doc)
    obtain c w1
      where sh: "set_hadoop_conf (self\<lparr>self_cmd_env := Shared, self_conf := doc\<rparr>) w = (c, w1)"
      by (cases "set_hadoop_conf (self\<lparr>self_cmd_env := Shared, self_conf := doc\<rparr>) w")
    have f1: "files w1 = files w"
      using set_hadoop_conf_files [of "self\<lparr>self_cmd_env := Shared, self_conf := doc\<rparr>" w] sh
      by simp
    show ?thesis
    proof (cases c)
      case (Inl e)
      with doc sh f1 show ?thesis by (simp add: configure_for_job_def Let_def)
    next
      case self1: (Inr self1)
      let ?args = "if opt_remaining_args opts \<noteq> [] then
                     (case self_runner self1 of
                        None \<Rightarrow> Inl (AttributeError ''parse_args'')
                      | Some r \<Rightarrow>
                          Inr (self1\<lparr>self_runner :=
                                 Some (runner_parse_args r (opt_remaining_args opts))\<rparr>))
                   else Inr self1"
      show ?thesis
      proof (cases ?args)
        case (Inl e)
        with doc sh self1 f1 show ?thesis by (simp add: configure_for_job_def Let_def)
      next
        case self2: (Inr self2)
        show ?thesis
        proof (cases "self_conf self2")
          case YOther
          with doc sh self1 self2 f1 show ?thesis
            by (simp add: configure_for_job_def Let_def)
        next
          case (YMapping cd)
          show ?thesis
          proof (cases "tool_env cd")
            case None
            with doc sh self1 self2 YMapping f1 show ?thesis
              by (simp add: configure_for_job_def Let_def)
          next
            case (Some te)
            obtain self3 w2
              where fo: "fold (\<lambda>kv. cmd_env_setitem (fst kv) (snd kv)) te (self2, w1)
                           = (self3, w2)"
              by (cases "fold (\<lambda>kv. cmd_env_setitem (fst kv) (snd kv)) te (self2, w1)")
            have "files w2 = files w1"
              using fold_cmd_env_setitem_files [of te "(self2, w1)"] fo by simp
            with doc sh self1 self2 YMapping Some fo f1 show ?thesis
              by (simp add: configure_for_job_def Let_def)
          qed
        qed
      qed
    qed
  qed
qed

text \<open>A tool environment that sets \<open>HADOOP_GALAXY_DATA_DIR\<close> sets it in \<open>os.environ\<close>.\<close>

lemma configure_for_job_tool_env:
  "configure_for_job
     (local_hadoop 1 (YMapping \<lparr>HADOOP_HOME = None, HADOOP_CONF_DIR = None,
        tool_env = Some [(''HADOOP_GALAXY_DATA_DIR'', ''/galaxy/data'')]\<rparr>))
     scenario_galaxy (scenario_options\<lparr>opt_conf := Some ''/galaxy/conf.yaml''\<rparr>)
     scenario_world
   = (Inr (scenario_galaxy
            \<lparr>self_cmd_env := Shared,
             self_conf := YMapping \<lparr>HADOOP_HOME = None, HADOOP_CONF_DIR = None,
               tool_env = Some [(''HADOOP_GALAXY_DATA_DIR'', ''/galaxy/data'')]\<rparr>\<rparr>),
      scenario_world\<lparr>os_environ_data :=
        [(''PATH'', ''/bin:/usr/bin''), (''HADOOP_GALAXY_DATA_DIR'', ''/galaxy/data'')]\<rparr>)"
  by code_simp

text \<open>What \<open>execute\<close> does to a file \<open>q\<close> is what the removal of the output path, the
  creation of its parent and the tool do to it.\<close>

lemma execute_frame:
  assumes ex: "execute X self env w = (res, w')"
    and out: "output_str self = Some p"
    and rmr: "map_of (files (snd (phdfs_rmr X p w))) q = map_of (files w) q"
    and mkdir: "\<And>d v. map_of (files (snd (phdfs_mkdir X d v))) q = map_of (files v) q"
    and tool: "\<And>cmd v. map_of (files (snd (check_call X cmd env v))) q = map_of (files v) q"
  shows "map_of (files w') q = map_of (files w) q"
proof (cases "command (find_executable X) (os_environ_data w) self env")
  case (Inl e)
  with ex show ?thesis by (simp add: execute_def)
next
  case (Inr cmd)
  obtain removed w1 where r: "phdfs_rmr X p w = (removed, w1)"
    by (cases "phdfs_rmr X p w")
  have f1: "map_of (files w1) q = map_of (files w) q"
    using rmr r by simp
  show ?thesis
  proof (cases "except_IOError removed")
    case (Inl e)
    with ex Inr out r f1 show ?thesis by (simp add: execute_def)
  next
    case ok: (Inr u)
    show ?thesis
    proof (cases "phdfs_path_exists X (phdfs_path_dirname X p) w1")
      case True
      with ex Inr out r ok have "check_call X cmd env w1 = (res, w')"
        by (simp add: execute_def)
      with tool [of cmd w1] f1 show ?thesis by simp
    next
      case False
      obtain made w2 where m: "phdfs_mkdir X (phdfs_path_dirname X p) w1 = (made, w2)"
        by (cases "phdfs_mkdir X (phdfs_path_dirname X p) w1")
      have f2: "map_of (files w2) q = map_of (files w) q"
        using mkdir [of "phdfs_path_dirname X p" w1] m f1 by simp
      show ?thesis
      proof (cases made)
        case (Inl e)
        with ex Inr out r ok False m f2 show ?thesis by (simp add: execute_def)
      next
        case made_ok: (Inr u')
        with ex Inr out r ok False m have "check_call X cmd env w2 = (res, w')"
          by (simp add: execute_def)
        with tool [of cmd w2] f2 show ?thesis by simp
      qed
    qed
  qed
qed

lemma run_unfold:
  assumes "configure_for_job X self opts w = (Inr self1, w0)"
    and "map_of (files w0) (opt_input opts) = Some content"
    and "from_file X content = Inr input_pathset"
    and "self_runner self1 = Some r"
  shows "run X self opts w =
     (case execute X
             (set_input r input_pathset
                \<lparr>output_str := Some (gen_data_output_path opts (os_environ_data w0) None)\<rparr>)
             (Some (cmd_env self1 w0)) w0 of
        (Inl e, w1) \<Rightarrow> (Inl (run_except opts e), w1)
      | (Inr u, w1) \<Rightarrow>
          if can_open_w X (opt_output opts) w1
          then (Inr (self1\<lparr>self_runner := Some (set_input r input_pathset
                   \<lparr>output_str := Some (gen_data_output_path opts (os_environ_data w0) None)\<rparr>)\<rparr>),
                w1\<lparr>files := dict_set (opt_output opts)
                     (pathset_write X
                        (FilePathset (gen_data_output_path opts (os_environ_data w0) None)))
                     (files w1)\<rparr>)
          else (Inl (IOError (opt_output opts)), w1))"
  using assms by (simp add: run_def Let_def set_output_FilePathset)

text \<open>
  What the order of the statements of \<open>run\<close> gives: a run that raises has not opened
  the declared output pathset file, so that the file is as it was when the removal of
  the computed data output path, the creation of a directory and the tool leave it as
  it was.  The data output path is computed from \<open>os.environ\<close> as the configuration
  has left it.
\<close>

lemma run_failure_frame:
  assumes run: "run X self opts w = (Inl e, w')"
    and rmr: "\<And>v. map_of (files (snd (phdfs_rmr X
                     (gen_data_output_path opts (os_environ_data v) None) v))) (opt_output opts)
                   = map_of (files v) (opt_output opts)"
    and mkdir: "\<And>d v. map_of (files (snd (phdfs_mkdir X d v))) (opt_output opts)
                   = map_of (files v) (opt_output opts)"
    and tool: "\<And>cmd env v. map_of (files (snd (check_call X cmd env v))) (opt_output opts)
                   = map_of (files v) (opt_output opts)"
  shows "map_of (files w') (opt_output opts) = map_of (files w) (opt_output opts)"
proof -
  obtain c w0 where conf: "configure_for_job X self opts w = (c, w0)"
    by (cases "configure_for_job X self opts w")
  have f0: "files w0 = files w"
    using configure_for_job_files [of X self opts w] conf by simp
  show ?thesis
  proof (cases c)
    case (Inl e0)
    with run conf f0 show ?thesis by (simp add: run_def)
  next
    case (Inr self1)
    note conf1 = conf [unfolded Inr]
    show ?thesis
    proof (cases "map_of (files w0) (opt_input opts)")
      case None
      with run conf1 f0 show ?thesis by (simp add: run_def)
    next
      case inp: (Some content)
      show ?thesis
      proof (cases "from_file X content")
        case (Inl e0)
        with run conf1 inp f0 show ?thesis by (simp add: run_def)
      next
        case pset: (Inr input_pathset)
        show ?thesis
        proof (cases "self_runner self1")
          case None
          with run conf1 inp pset f0 show ?thesis by (simp add: run_def Let_def)
        next
          case runner: (Some r)
          let ?p = "gen_data_output_path opts (os_environ_data w0) None"
          let ?r1 = "set_input r input_pathset\<lparr>output_str := Some ?p\<rparr>"
          obtain ex w1 where ex: "execute X ?r1 (Some (cmd_env self1 w0)) w0 = (ex, w1)"
            by (cases "execute X ?r1 (Some (cmd_env self1 w0)) w0")
          have frame: "map_of (files w1) (opt_output opts) = map_of (files w0) (opt_output opts)"
            by (rule execute_frame [OF ex _ rmr mkdir tool]) simp
          have "w' = w1"
            using run ex
            by (cases ex)
               (simp_all add: run_unfold [OF conf1 inp pset runner] split: if_splits)
          with frame f0 show ?thesis by simp
        qed
      qed
    qed
  qed
qed

text \<open>A run that returns has executed the tool and then written the declared file.\<close>

lemma cmd_env_self_runner: "cmd_env (self\<lparr>self_runner := r\<rparr>) w = cmd_env self w"
  by (simp add: cmd_env_def)

lemma run_success_after_execute:
  assumes run: "run X self opts w = (Inr self', w')"
  shows "let w0 = snd (configure_for_job X self opts w) in
         \<exists>r w1. self_runner self' = Some r
          \<and> execute X r (Some (cmd_env self' w0)) w0 = (Inr (), w1)
          \<and> w' = w1\<lparr>files := dict_set (opt_output opts)
                  (pathset_write X
                     (FilePathset (gen_data_output_path opts (os_environ_data w0) None)))
                  (files w1)\<rparr>"
  using run
  by (auto simp: run_def Let_def set_output_FilePathset cmd_env_self_runner
        split: sum.splits option.splits prod.splits if_splits)

text \<open>The scenario of the specification, with a tool that succeeds and with one that
  fails: the data output path is beside the declared file, which is written by the
  first run and left empty by the second.\<close>

lemma run_scenario:
  "map_of (files (snd (run (local_hadoop 0 no_conf) scenario_galaxy scenario_options
                         scenario_world))) ''/galaxy/data/job7.dataset''
     = Some ''/galaxy/data/hadoop_output/job7.dataset\<newline>''
   \<and> run (local_hadoop 1 no_conf) scenario_galaxy scenario_options scenario_world
     = (Inl (RuntimeError ''hadoop_tool exit code: 1''), scenario_world)"
  by code_simp

text \<open>
  C1.  The declared output pathset file is not left untouched by every run that
  raises: \<open>execute\<close> removes the computed data output path before it runs the tool, and
  that path is the declared file when the output data directory is the directory of
  the declared file.  In the scenario with the option \<open>--output-data-dir /galaxy/data\<close>
  and a tool that ends with the exit status 1, \<open>run\<close> raises and the declared file
  \<open>/galaxy/data/job7.dataset\<close>, empty before the run, is gone after it.  The source says
  of the data path that it is \<open>calculated as to not put data and pathset file in the
  same place\<close>.
\<close>

theorem run_failure_removes_output_file:
  "fst (run (local_hadoop 1 no_conf) scenario_galaxy
          (scenario_options\<lparr>opt_output_data_dir := Some ''/galaxy/data''\<rparr>) scenario_world)
      = Inl (RuntimeError ''hadoop_tool exit code: 1'')
   \<and> gen_data_output_path (scenario_options\<lparr>opt_output_data_dir := Some ''/galaxy/data''\<rparr>)
        (os_environ_data scenario_world) None
      = opt_output scenario_options
   \<and> map_of (files scenario_world) ''/galaxy/data/job7.dataset'' = Some []
   \<and> map_of (files (snd (run (local_hadoop 1 no_conf) scenario_galaxy
          (scenario_options\<lparr>opt_output_data_dir := Some ''/galaxy/data''\<rparr>)
          scenario_world))) ''/galaxy/data/job7.dataset'' = None"
  by code_simp

text \<open>The same happens when the directory comes from the \<open>tool_env\<close> of the
  configuration file: the entry is stored in \<open>os.environ\<close> through \<open>_cmd_env\<close>, and
  \<open>gen_data_output_path\<close> reads it there.\<close>

lemma run_tool_env_data_dir_removes_output_file:
  "fst (run (local_hadoop 1 (YMapping \<lparr>HADOOP_HOME = None, HADOOP_CONF_DIR = None,
               tool_env = Some [(''HADOOP_GALAXY_DATA_DIR'', ''/galaxy/data'')]\<rparr>))
          scenario_galaxy (scenario_options\<lparr>opt_conf := Some ''/galaxy/conf.yaml''\<rparr>)
          scenario_world)
      = Inl (RuntimeError ''hadoop_tool exit code: 1'')
   \<and> map_of (files scenario_world) ''/galaxy/data/job7.dataset'' = Some []
   \<and> map_of (files (snd (run (local_hadoop 1 (YMapping \<lparr>HADOOP_HOME = None,
               HADOOP_CONF_DIR = None,
               tool_env = Some [(''HADOOP_GALAXY_DATA_DIR'', ''/galaxy/data'')]\<rparr>))
          scenario_galaxy (scenario_options\<lparr>opt_conf := Some ''/galaxy/conf.yaml''\<rparr>)
          scenario_world))) ''/galaxy/data/job7.dataset'' = None"
  by code_simp

end
